theory Spec2Isabelle
  imports Main
begin

section \<open>Values, exceptions and the wire\<close>

text \<open>
  The values that travel over XML-RPC (the type table of the module docstring:
  \<^verbatim>\<open>6=bytes A=list b=bool d=float i=int n=None s=str S=dict\<close>). A float is only ever
  passed through, so a finite one is kept as mantissa and binary exponent; \<^verbatim>\<open>5.0\<close> is
  \<open>PyFloat 5 0\<close>.
\<close>

datatype pyfloat = PyFloat int int

datatype pyval =
    PNone
  | PBool bool
  | PInt int
  | PFloat pyfloat
  | PStr string
  | PBytes "nat list"
  | PList "pyval list"
  | PDict "(string \<times> pyval) list"

text \<open>The four exception classes of the module below \<^verbatim>\<open>FldigiError\<close>.\<close>

datatype kind = FldigiXmlrpcError | FldigiRigError | FldigiModemError | FldigiMainError

text \<open>
  A Python exception (a subclass of \<^verbatim>\<open>Exception\<close>): its class, \<^verbatim>\<open>str(e)\<close>,
  \<^verbatim>\<open>__cause__\<close> (set by \<^verbatim>\<open>raise ... from e\<close>) and \<^verbatim>\<open>__context__\<close> (set whenever an
  exception is raised while another is being handled). \<open>Fault\<close> is
  \<^verbatim>\<open>xmlrpc.client.Fault\<close> with its \<^verbatim>\<open>faultCode\<close> and \<^verbatim>\<open>faultString\<close>; \<open>Other\<close> is any
  other class, by name.
\<close>

datatype exc_class = Fault int string | Fldigi kind | Other string

datatype pyexc =
  PyExc (exc_class: exc_class) (exc_str: string)
        (exc_cause: "pyexc option") (exc_context: "pyexc option")

type_synonym 'a result = "pyexc + 'a"

text \<open>
  One wire call is a remote method name with its positional arguments, as the client
  hands them to the transport, which sends them as one request. The state that the
  client's operations act on is the list of wire calls issued so far; an operation takes
  that list and returns its outcome with the extended list.
\<close>

type_synonym wirecall = "string \<times> pyval list"
type_synonym 'a action = "wirecall list \<Rightarrow> 'a result \<times> wirecall list"

text \<open>
  The transport, \<^verbatim>\<open>xmlrpc.client.ServerProxy\<close>, is not part of the module. It is taken
  as a parameter: a remote end answers the call it is sent, given everything it was
  sent before, with a value or with an exception.
\<close>

type_synonym remote = "wirecall list \<Rightarrow> string \<Rightarrow> pyval list \<Rightarrow> pyval result"

definition invoke :: "remote \<Rightarrow> string \<Rightarrow> pyval list \<Rightarrow> pyval action" where
  "invoke srv method args w = (srv w method args, w @ [(method, args)])"

section \<open>Strings\<close>

text \<open>
  \<^verbatim>\<open>str.lower\<close>, \<^verbatim>\<open>in\<close> and \<^verbatim>\<open>str.startswith\<close>. A string is a list of characters and
  \<open>lower\<close> maps the letters A to Z.
\<close>

definition lower_char :: "char \<Rightarrow> char" where
  "lower_char c =
     (case map_of (zip ''ABCDEFGHIJKLMNOPQRSTUVWXYZ'' ''abcdefghijklmnopqrstuvwxyz'') c of
        None \<Rightarrow> c
      | Some l \<Rightarrow> l)"

definition lower :: "string \<Rightarrow> string" where
  "lower s = map lower_char s"

definition startswith :: "string \<Rightarrow> string \<Rightarrow> bool" where
  "startswith s prefix = (take (length prefix) s = prefix)"

fun py_in :: "string \<Rightarrow> string \<Rightarrow> bool" where
  "py_in sub [] = (sub = [])"
| "py_in sub (c # cs) = (startswith (c # cs) sub \<or> py_in sub cs)"

text \<open>\<^verbatim>\<open>str(n)\<close> for an integer, as an f-string prints it.\<close>

definition digit_char :: "nat \<Rightarrow> char" where
  "digit_char d = ''0123456789'' ! d"

fun str_nat :: "nat \<Rightarrow> string" where
  "str_nat n = (if n < 10 then [digit_char n] else str_nat (n div 10) @ [digit_char (n mod 10)])"

definition str_int :: "int \<Rightarrow> string" where
  "str_int i = (if i < 0 then ''-'' @ str_nat (nat (- i)) else str_nat (nat i))"

section \<open>The client\<close>

text \<open>
  \<^verbatim>\<open>Fldigi.__init__\<close> stores host, port and timeout, sets \<^verbatim>\<open>_server\<close> to \<^verbatim>\<open>None\<close> and
  calls \<^verbatim>\<open>_connect\<close>, which either binds \<^verbatim>\<open>_server\<close> or raises. A caller therefore
  only ever holds a client whose \<^verbatim>\<open>_server\<close> is bound, and the record has the bound
  transport.
\<close>

record fldigi =
  host :: string
  port :: int
  timeout :: pyfloat
  server :: remote

text \<open>
  \<^verbatim>\<open>raise C(msg) from e\<close> inside the handler of \<open>e\<close>, and \<^verbatim>\<open>raise C(msg)\<close> inside the
  handler of \<open>e\<close> without \<^verbatim>\<open>from\<close>.
\<close>

definition raise_from :: "kind \<Rightarrow> string \<Rightarrow> pyexc \<Rightarrow> pyexc" where
  "raise_from k msg e = PyExc (Fldigi k) msg (Some e) (Some e)"


text \<open>
  \<^verbatim>\<open>Fldigi._connect\<close>. The constructor of the transport is the parameter \<open>mk\<close>: given
  the URL and the timeout it returns the transport or raises.
\<close>

definition url_of :: "string \<Rightarrow> int \<Rightarrow> string" where
  "url_of h p = ''http://'' @ h @ '':'' @ str_int p"




text \<open>
  \<^verbatim>\<open>Fldigi._call\<close>. The first handler takes a \<^verbatim>\<open>Fault\<close>, the second every other
  exception; what a handler raises leaves the \<^verbatim>\<open>try\<close> statement.
\<close>

definition on_fault :: "string \<Rightarrow> string \<Rightarrow> pyexc \<Rightarrow> pyexc" where
  "on_fault method faultString e =
     (if py_in ''rig'' (lower method) then
        raise_from FldigiRigError (''Rig error in '' @ method @ '': '' @ faultString) e
      else if py_in ''modem'' (lower method) then
        raise_from FldigiModemError (''Modem error in '' @ method @ '': '' @ faultString) e
      else if startswith method ''main.'' then
        raise_from FldigiMainError (''Main error in '' @ method @ '': '' @ faultString) e
      else
        raise_from FldigiXmlrpcError (''XML-RPC fault in '' @ method @ '': '' @ faultString) e)"

definition on_exception :: "string \<Rightarrow> pyexc \<Rightarrow> pyexc" where
  "on_exception method e =
     raise_from FldigiXmlrpcError (''XML-RPC call failed for '' @ method @ '': '' @ exc_str e) e"

definition Fldigi_call :: "fldigi \<Rightarrow> string \<Rightarrow> pyval list \<Rightarrow> pyval action" where
  "Fldigi_call self method args w =
     (case invoke (server self) method args w of
        (Inr result, w') \<Rightarrow> (Inr result, w')
      | (Inl e, w') \<Rightarrow>
          (case exc_class e of
             Fault faultCode faultString \<Rightarrow> (Inl (on_fault method faultString e), w')
           | _ \<Rightarrow> (Inl (on_exception method e), w')))"

section \<open>The convenience methods\<close>

text \<open>
  The bodies of the \<^verbatim>\<open>def\<close>s of the class, in the order of the source. A method whose
  body is a bare call statement returns \<^verbatim>\<open>None\<close>.
\<close>

definition discard :: "pyval action \<Rightarrow> pyval action" where
  "discard act w = (case act w of (Inr r, w') \<Rightarrow> (Inr PNone, w') | (Inl e, w') \<Rightarrow> (Inl e, w'))"

definition Fldigi_rx :: "fldigi \<Rightarrow> pyval action" where
  "Fldigi_rx self = Fldigi_call self ''main.rx'' []"

definition Fldigi_tx :: "fldigi \<Rightarrow> pyval action" where
  "Fldigi_tx self = discard (Fldigi_call self ''main.tx'' [])"

definition Fldigi_tune :: "fldigi \<Rightarrow> pyval action" where
  "Fldigi_tune self = discard (Fldigi_call self ''main.tune'' [])"

definition Fldigi_abort :: "fldigi \<Rightarrow> pyval action" where
  "Fldigi_abort self = discard (Fldigi_call self ''main.abort'' [])"

definition Fldigi_add_tx :: "fldigi \<Rightarrow> string \<Rightarrow> pyval action" where
  "Fldigi_add_tx self text = discard (Fldigi_call self ''text.add_tx'' [PStr text])"

definition Fldigi_clear_rx :: "fldigi \<Rightarrow> pyval action" where
  "Fldigi_clear_rx self = discard (Fldigi_call self ''text.clear_rx'' [])"

definition Fldigi_clear_tx :: "fldigi \<Rightarrow> pyval action" where
  "Fldigi_clear_tx self = discard (Fldigi_call self ''text.clear_tx'' [])"

text \<open>
  \<^verbatim>\<open>get_rx(self, start: int = 0, length: Optional[int] = None)\<close>. An argument left out is
  \<open>None\<close> here; for \<^verbatim>\<open>length\<close> (here \<open>len\<close>) that is also the default value itself. \<open>or_zero\<close> is
  \<^verbatim>\<open>length or 0\<close>: the left operand when it is truthy, else \<^verbatim>\<open>0\<close>.
\<close>

definition or_zero :: "int option \<Rightarrow> int" where
  "or_zero len = (case len of None \<Rightarrow> 0 | Some n \<Rightarrow> if n \<noteq> 0 then n else 0)"

definition Fldigi_get_rx :: "fldigi \<Rightarrow> int option \<Rightarrow> int option \<Rightarrow> pyval action" where
  "Fldigi_get_rx self start len =
     Fldigi_call self ''text.get_rx''
       [PInt (case start of None \<Rightarrow> 0 | Some s \<Rightarrow> s), PInt 0, PInt (or_zero len)]"

text \<open>
  \<^verbatim>\<open>try: body  except FldigiRigError: handler\<close>: the handler runs when the body raises an
  exception of that class, and nothing else is caught.
\<close>

definition except_RigError :: "pyval action \<Rightarrow> pyval action \<Rightarrow> pyval action" where
  "except_RigError body handler w =
     (case body w of
        (Inr r, w') \<Rightarrow> (Inr r, w')
      | (Inl e, w') \<Rightarrow>
          (if exc_class e = Fldigi FldigiRigError then handler w' else (Inl e, w')))"

definition get_frequency :: "fldigi \<Rightarrow> pyval action" where
  "get_frequency self =
     except_RigError (Fldigi_call self ''rig.get_frequency'' [])
       (Fldigi_call self ''main.get_frequency'' [])"

definition set_frequency :: "fldigi \<Rightarrow> pyfloat \<Rightarrow> pyval action" where
  "set_frequency self freq =
     except_RigError (discard (Fldigi_call self ''rig.set_frequency'' [PFloat freq]))
       (discard (Fldigi_call self ''main.set_frequency'' [PFloat freq]))"

definition get_mode :: "fldigi \<Rightarrow> pyval action" where
  "get_mode self =
     except_RigError (Fldigi_call self ''rig.get_mode'' [])
       (Fldigi_call self ''main.get_mode'' [])"

definition set_mode :: "fldigi \<Rightarrow> string \<Rightarrow> pyval action" where
  "set_mode self mode_name =
     except_RigError (discard (Fldigi_call self ''rig.set_mode'' [PStr mode_name]))
       (discard (Fldigi_call self ''main.set_mode'' [PStr mode_name]))"

definition get_bandwidth :: "fldigi \<Rightarrow> pyval action" where
  "get_bandwidth self =
     except_RigError (Fldigi_call self ''rig.get_bandwidth'' [])
       (Fldigi_call self ''main.get_bandwidth'' [])"

definition set_bandwidth :: "fldigi \<Rightarrow> int \<Rightarrow> pyval action" where
  "set_bandwidth self bw =
     except_RigError (discard (Fldigi_call self ''rig.set_bandwidth'' [PInt bw]))
       (discard (Fldigi_call self ''main.set_bandwidth'' [PInt bw]))"

definition get_squelch :: "fldigi \<Rightarrow> pyval action" where
  "get_squelch self = Fldigi_call self ''main.get_squelch_level'' []"

definition set_squelch :: "fldigi \<Rightarrow> int \<Rightarrow> pyval action" where
  "set_squelch self level = discard (Fldigi_call self ''main.set_squelch_level'' [PInt level])"

definition signal_strength :: "fldigi \<Rightarrow> pyval action" where
  "signal_strength self = Fldigi_call self ''modem.get_quality'' []"

definition rx_state :: "fldigi \<Rightarrow> pyval action" where
  "rx_state self = Fldigi_call self ''main.rx'' []"

definition tx_state :: "fldigi \<Rightarrow> pyval action" where
  "tx_state self = Fldigi_call self ''main.tx'' []"

section \<open>Namespace proxies\<close>

text \<open>
  \<^verbatim>\<open>NamespaceProxy.__getattr__\<close>: the closure \<^verbatim>\<open>method\<close> that it returns, applied to
  positional arguments. (\<^verbatim>\<open>_call\<close> takes no keyword arguments; calls with keyword
  arguments are not modelled.)
\<close>

definition NamespaceProxy_getattr :: "fldigi \<Rightarrow> string \<Rightarrow> string \<Rightarrow> pyval list \<Rightarrow> pyval action" where
  "NamespaceProxy_getattr client namespace name args =
     Fldigi_call client (namespace @ ''.'' @ name) args"

text \<open>
  Python calls \<^verbatim>\<open>__getattr__\<close> only for a name that ordinary lookup does not find.
  Ordinary lookup finds the two instance attributes that \<^verbatim>\<open>__init__\<close> sets, and on the
  class and on \<^verbatim>\<open>object\<close> the names of the object protocol (\<^verbatim>\<open>__init__\<close>,
  \<^verbatim>\<open>__getattr__\<close>, \<^verbatim>\<open>__class__\<close>, ...), which all have the reserved form
  \<^verbatim>\<open>__x__\<close>. Neither an instance of \<^verbatim>\<open>Fldigi\<close> nor one of \<^verbatim>\<open>str\<close> can be called.
\<close>

definition endswith :: "string \<Rightarrow> string \<Rightarrow> bool" where
  "endswith s suffix = (drop (length s - length suffix) s = suffix)"

definition reserved :: "string \<Rightarrow> bool" where
  "reserved name = (startswith name ''__'' \<and> endswith name ''__'')"

definition quoted :: "string \<Rightarrow> string" where
  "quoted s = CHR 0x27 # s @ [CHR 0x27]"

definition TypeError :: "string \<Rightarrow> pyexc" where
  "TypeError msg = PyExc (Other ''TypeError'') msg None None"

definition not_callable :: "string \<Rightarrow> pyexc" where
  "not_callable cls = TypeError (quoted cls @ '' object is not callable'')"

text \<open>
  The expression \<^verbatim>\<open>proxy.name(*args)\<close> for a proxy made by
  \<^verbatim>\<open>NamespaceProxy(client, namespace)\<close>. What a reserved name does is left open: the
  value is \<open>None\<close>.
\<close>

definition NamespaceProxy_call ::
  "fldigi \<Rightarrow> string \<Rightarrow> string \<Rightarrow> pyval list \<Rightarrow> wirecall list
     \<Rightarrow> (pyval result \<times> wirecall list) option" where
  "NamespaceProxy_call client namespace name args w =
     (if name = ''_client'' then Some (Inl (not_callable ''Fldigi''), w)
      else if name = ''_namespace'' then Some (Inl (not_callable ''str''), w)
      else if reserved name then None
      else Some (NamespaceProxy_getattr client namespace name args w))"

section \<open>The class body\<close>

text \<open>
  The statements of the body of \<^verbatim>\<open>class Fldigi\<close> that bind a public name, in the order
  of the source: the eight \<^verbatim>\<open>def\<close>s, the seven value properties and the fourteen
  properties that return a \<^verbatim>\<open>NamespaceProxy\<close>, each with the namespace it passes.
  (A setter binds the name of its property once more, to the same property with the
  setter added.)
\<close>

datatype member =
    Def_rx | Def_tx | Def_tune | Def_abort | Def_add_tx | Def_clear_rx | Def_clear_tx
  | Def_get_rx
  | Prop_frequency | Prop_mode | Prop_bandwidth | Prop_squelch | Prop_signal_strength
  | Prop_rx_state | Prop_tx_state
  | Prop_namespace string

definition Fldigi_body :: "(string \<times> member) list" where
  "Fldigi_body =
     [(''rx'', Def_rx), (''tx'', Def_tx), (''tune'', Def_tune), (''abort'', Def_abort),
      (''add_tx'', Def_add_tx), (''clear_rx'', Def_clear_rx), (''clear_tx'', Def_clear_tx),
      (''get_rx'', Def_get_rx),
      (''frequency'', Prop_frequency), (''mode'', Prop_mode), (''bandwidth'', Prop_bandwidth),
      (''squelch'', Prop_squelch), (''signal_strength'', Prop_signal_strength),
      (''rx_state'', Prop_rx_state), (''tx_state'', Prop_tx_state),
      (''fldigi'', Prop_namespace ''fldigi''), (''main'', Prop_namespace ''main''),
      (''rig'', Prop_namespace ''rig''), (''text'', Prop_namespace ''text''),
      (''modem'', Prop_namespace ''modem''),
      (''modem_olivia'', Prop_namespace ''modem.olivia''),
      (''rx'', Prop_namespace ''rx''), (''rxtx'', Prop_namespace ''rxtx''),
      (''tx'', Prop_namespace ''tx''), (''log'', Prop_namespace ''log''),
      (''io'', Prop_namespace ''io''), (''spot'', Prop_namespace ''spot''),
      (''navtex'', Prop_namespace ''navtex''), (''wefax'', Prop_namespace ''wefax'')]"

text \<open>
  A class body runs top to bottom and each statement binds its name in the namespace of
  the class, so the last binding of a name is the one the class has.
\<close>

definition Fldigi_class :: "string \<Rightarrow> member option" where
  "Fldigi_class name = map_of (rev Fldigi_body) name"

text \<open>
  The expression \<^verbatim>\<open>client.name()\<close>. A \<^verbatim>\<open>def\<close> is called with the client bound; a
  property is evaluated first and the value it gives is then called, which fails for a
  value that is not callable.
\<close>

fun type_name :: "pyval \<Rightarrow> string" where
  "type_name PNone = ''NoneType''"
| "type_name (PBool b) = ''bool''"
| "type_name (PInt i) = ''int''"
| "type_name (PFloat f) = ''float''"
| "type_name (PStr s) = ''str''"
| "type_name (PBytes b) = ''bytes''"
| "type_name (PList l) = ''list''"
| "type_name (PDict d) = ''dict''"

definition call_value :: "pyval action \<Rightarrow> pyval action" where
  "call_value getter w =
     (case getter w of
        (Inl e, w') \<Rightarrow> (Inl e, w')
      | (Inr v, w') \<Rightarrow> (Inl (not_callable (type_name v)), w'))"

definition raise_exc :: "pyexc \<Rightarrow> pyval action" where
  "raise_exc e w = (Inl e, w)"

fun call_member :: "member \<Rightarrow> fldigi \<Rightarrow> pyval action" where
  "call_member Def_rx self = Fldigi_rx self"
| "call_member Def_tx self = Fldigi_tx self"
| "call_member Def_tune self = Fldigi_tune self"
| "call_member Def_abort self = Fldigi_abort self"
| "call_member Def_add_tx self =
     raise_exc (TypeError (''add_tx() missing 1 required positional argument: '' @ quoted ''text''))"
| "call_member Def_clear_rx self = Fldigi_clear_rx self"
| "call_member Def_clear_tx self = Fldigi_clear_tx self"
| "call_member Def_get_rx self = Fldigi_get_rx self None None"
| "call_member Prop_frequency self = call_value (get_frequency self)"
| "call_member Prop_mode self = call_value (get_mode self)"
| "call_member Prop_bandwidth self = call_value (get_bandwidth self)"
| "call_member Prop_squelch self = call_value (get_squelch self)"
| "call_member Prop_signal_strength self = call_value (signal_strength self)"
| "call_member Prop_rx_state self = call_value (rx_state self)"
| "call_member Prop_tx_state self = call_value (tx_state self)"
| "call_member (Prop_namespace namespace) self = raise_exc (not_callable ''NamespaceProxy'')"

definition Fldigi_call_attr ::
  "fldigi \<Rightarrow> string \<Rightarrow> wirecall list \<Rightarrow> (pyval result \<times> wirecall list) option" where
  "Fldigi_call_attr self name w =
     (case Fldigi_class name of
        None \<Rightarrow> None
      | Some m \<Rightarrow> Some (call_member m self w))"

text \<open>
  The expression \<^verbatim>\<open>client.pname.name(*args)\<close> where \<open>pname\<close> is one of the properties
  that return a proxy.
\<close>

definition Fldigi_proxy_call ::
  "fldigi \<Rightarrow> string \<Rightarrow> string \<Rightarrow> pyval list \<Rightarrow> wirecall list
     \<Rightarrow> (pyval result \<times> wirecall list) option" where
  "Fldigi_proxy_call self pname name args w =
     (case Fldigi_class pname of
        Some (Prop_namespace namespace) \<Rightarrow> NamespaceProxy_call self namespace name args w
      | _ \<Rightarrow> None)"

section \<open>Notions of the specification\<close>

text \<open>
  The decision table of the fault classifier as the specification words it, first match
  wins. \<open>nocase_in\<close> is "contains, case-insensitive"; \<open>is_fault\<close> says that a failure
  is a protocol-level fault.
\<close>

definition nocase_in :: "string \<Rightarrow> string \<Rightarrow> bool" where
  "nocase_in sub s = py_in (lower sub) (lower s)"

definition is_fault :: "pyexc \<Rightarrow> bool" where
  "is_fault e = (case exc_class e of Fault c s \<Rightarrow> True | _ \<Rightarrow> False)"

definition decision_table :: "string \<Rightarrow> bool \<Rightarrow> kind" where
  "decision_table method protocol_fault =
     (if protocol_fault \<and> nocase_in ''rig'' method then FldigiRigError
      else if protocol_fault \<and> nocase_in ''modem'' method then FldigiModemError
      else if protocol_fault \<and> startswith method ''main.'' then FldigiMainError
      else FldigiXmlrpcError)"

text \<open>
  The six accessors with a fallback pair: the getter or setter each one stands for, its
  call in the rig namespace, the equivalent call in the main namespace, the dispatcher
  calls of the two, and what the accessor hands back for a value \<open>v\<close> that the remote
  call returned (a setter hands back \<^verbatim>\<open>None\<close>).
\<close>

datatype accessor =
    Get_frequency | Set_frequency pyfloat
  | Get_mode | Set_mode string
  | Get_bandwidth | Set_bandwidth int

fun facade :: "accessor \<Rightarrow> fldigi \<Rightarrow> pyval action" where
  "facade Get_frequency self = get_frequency self"
| "facade (Set_frequency freq) self = set_frequency self freq"
| "facade Get_mode self = get_mode self"
| "facade (Set_mode mode_name) self = set_mode self mode_name"
| "facade Get_bandwidth self = get_bandwidth self"
| "facade (Set_bandwidth bw) self = set_bandwidth self bw"

fun operation :: "accessor \<Rightarrow> string" where
  "operation Get_frequency = ''get_frequency''"
| "operation (Set_frequency freq) = ''set_frequency''"
| "operation Get_mode = ''get_mode''"
| "operation (Set_mode mode_name) = ''set_mode''"
| "operation Get_bandwidth = ''get_bandwidth''"
| "operation (Set_bandwidth bw) = ''set_bandwidth''"

fun arguments :: "accessor \<Rightarrow> pyval list" where
  "arguments Get_frequency = []"
| "arguments (Set_frequency freq) = [PFloat freq]"
| "arguments Get_mode = []"
| "arguments (Set_mode mode_name) = [PStr mode_name]"
| "arguments Get_bandwidth = []"
| "arguments (Set_bandwidth bw) = [PInt bw]"

definition primary :: "accessor \<Rightarrow> wirecall" where
  "primary a = (''rig.'' @ operation a, arguments a)"

definition fallback :: "accessor \<Rightarrow> wirecall" where
  "fallback a = (''main.'' @ operation a, arguments a)"

definition primary_call :: "accessor \<Rightarrow> fldigi \<Rightarrow> pyval action" where
  "primary_call a self = Fldigi_call self (fst (primary a)) (snd (primary a))"

definition fallback_call :: "accessor \<Rightarrow> fldigi \<Rightarrow> pyval action" where
  "fallback_call a self = Fldigi_call self (fst (fallback a)) (snd (fallback a))"

fun handed_back :: "accessor \<Rightarrow> pyval \<Rightarrow> pyval" where
  "handed_back Get_frequency v = v"
| "handed_back (Set_frequency freq) v = PNone"
| "handed_back Get_mode v = v"
| "handed_back (Set_mode mode_name) v = PNone"
| "handed_back Get_bandwidth v = v"
| "handed_back (Set_bandwidth bw) v = PNone"

definition outcome :: "accessor \<Rightarrow> pyval result \<Rightarrow> pyval result" where
  "outcome a r = (case r of Inl e \<Rightarrow> Inl e | Inr v \<Rightarrow> Inr (handed_back a v))"

text \<open>The proxy names of the dynamic surface, as the specification lists them.\<close>

definition dynamic_surface :: "string list" where
  "dynamic_surface =
     [''fldigi'', ''main'', ''rig'', ''text'', ''modem'', ''modem_olivia'', ''rx'', ''rxtx'',
      ''tx'', ''log'', ''io'', ''spot'', ''navtex'', ''wefax'']"

text \<open>
  The namespace that the proxy property of a given name passes: the name itself, except
  for \<^verbatim>\<open>modem_olivia\<close>.
\<close>

definition namespace_of :: "string \<Rightarrow> string" where
  "namespace_of pname = (if pname = ''modem_olivia'' then ''modem.olivia'' else pname)"

text \<open>
  An attribute name that ordinary lookup on a proxy may find, so that \<^verbatim>\<open>__getattr__\<close>
  is not asked.
\<close>

definition declared :: "string \<Rightarrow> bool" where
  "declared name = (name = ''_client'' \<or> name = ''_namespace'' \<or> reserved name)"

section \<open>Sample inputs\<close>

text \<open>
  A remote end that gives the same answer to every call, a transport constructor that
  always raises, a client with the default endpoint, and two failures: a protocol fault
  and a timeout.
\<close>

definition always :: "pyval result \<Rightarrow> remote" where
  "always r w method args = r"



definition client_of :: "remote \<Rightarrow> fldigi" where
  "client_of srv = \<lparr>host = ''127.0.0.1'', port = 7362, timeout = PyFloat 5 0, server = srv\<rparr>"

definition a_fault :: pyexc where
  "a_fault = PyExc (Fault 1 ''unknown method'') ''<Fault 1>'' None None"

definition a_timeout :: pyexc where
  "a_timeout = PyExc (Other ''TimeoutError'') ''timed out'' None None"

text \<open>A frequency of 14.074 MHz, in Hz.\<close>

definition a_frequency :: pyval where
  "a_frequency = PFloat (PyFloat 14074000 0)"

text \<open>A remote end that rejects every call in the rig namespace and answers the rest.\<close>

definition no_rig :: "pyval \<Rightarrow> remote" where
  "no_rig v w method args = (if startswith method ''rig.'' then Inl a_fault else Inr v)"


section \<open>The dispatcher\<close>

lemma Fldigi_call_wire: "snd (Fldigi_call self method args w) = w @ [(method, args)]"
  by (simp add: Fldigi_call_def invoke_def split: sum.split exc_class.split)

lemma lower_rig: "lower ''rig'' = ''rig''" and lower_modem: "lower ''modem'' = ''modem''"
  by (simp_all add: lower_def lower_char_def)

lemma on_fault_class:
  "exc_class (on_fault method s e) = Fldigi (decision_table method True)"
  by (simp add: on_fault_def decision_table_def nocase_in_def lower_rig lower_modem raise_from_def)

text \<open>
  Claim C1. Whenever the transport fails during a dispatcher call, the dispatcher raises
  the error kind that the decision table gives for the method name and for whether the
  failure is a protocol fault: a fault on a name containing "rig" in any case is a
  RigError, else on one containing "modem" a ModemError, else on one starting with
  "main." a MainError, else an XmlrpcError; a failure that is not a fault is an
  XmlrpcError whatever the name.
\<close>

theorem dispatcher_classifies:
  assumes "server self w method args = Inl e"
  shows "\<exists>err. Fldigi_call self method args w = (Inl err, w @ [(method, args)])
           \<and> exc_class err = Fldigi (decision_table method (is_fault e))"
proof (cases "exc_class e")
  case (Fault c s)
  then have "Fldigi_call self method args w = (Inl (on_fault method s e), w @ [(method, args)])"
    using assms by (simp add: Fldigi_call_def invoke_def)
  moreover have "is_fault e" using Fault by (simp add: is_fault_def)
  ultimately show ?thesis by (simp add: on_fault_class)
next
  case (Fldigi k)
  then have "Fldigi_call self method args w = (Inl (on_exception method e), w @ [(method, args)])"
    using assms by (simp add: Fldigi_call_def invoke_def)
  moreover have "\<not> is_fault e" using Fldigi by (simp add: is_fault_def)
  ultimately show ?thesis by (simp add: on_exception_def raise_from_def decision_table_def)
next
  case (Other n)
  then have "Fldigi_call self method args w = (Inl (on_exception method e), w @ [(method, args)])"
    using assms by (simp add: Fldigi_call_def invoke_def)
  moreover have "\<not> is_fault e" using Other by (simp add: is_fault_def)
  ultimately show ?thesis by (simp add: on_exception_def raise_from_def decision_table_def)
qed

theorem dispatcher_classifies_witness:
  "server (client_of (always (Inl a_fault))) [] ''main.get_tRIgger'' [] = Inl a_fault
   \<and> (\<exists>err. Fldigi_call (client_of (always (Inl a_fault))) ''main.get_tRIgger'' [] []
               = (Inl err, [(''main.get_tRIgger'', [])])
            \<and> exc_class err = Fldigi FldigiRigError)"
proof -
  have h: "server (client_of (always (Inl a_fault))) [] ''main.get_tRIgger'' [] = Inl a_fault"
    by (simp add: client_of_def always_def)
  have d: "decision_table ''main.get_tRIgger'' (is_fault a_fault) = FldigiRigError"
    by (simp add: decision_table_def is_fault_def a_fault_def nocase_in_def lower_def
        lower_char_def startswith_def)
  show ?thesis using h dispatcher_classifies [OF h] by (simp add: d)
qed






lemma on_fault_cause: "exc_cause (on_fault method s e) = Some e"
  by (simp add: on_fault_def raise_from_def)


lemma Fldigi_call_fails:
  assumes "server self w method args = Inl e"
  shows "Fldigi_call self method args w =
           (Inl (case exc_class e of Fault c s \<Rightarrow> on_fault method s e | _ \<Rightarrow> on_exception method e),
            w @ [(method, args)])"
  using assms by (simp add: Fldigi_call_def invoke_def split: exc_class.split)

lemma Fldigi_call_returns:
  assumes "server self w method args = Inr v"
  shows "Fldigi_call self method args w = (Inr v, w @ [(method, args)])"
  using assms by (simp add: Fldigi_call_def invoke_def)

text \<open>
  Claim C9. A dispatcher call on which the transport raises a fault raises exactly the
  error that the fault handler builds: its kind is the one of the decision table, its
  cause is the fault itself, and it is not that error wrapped once more by the handler
  for all other exceptions.
\<close>

theorem no_double_wrapping:
  assumes "server self w method args = Inl e" and "exc_class e = Fault c s"
  shows "Fldigi_call self method args w = (Inl (on_fault method s e), w @ [(method, args)])
         \<and> exc_class (on_fault method s e) = Fldigi (decision_table method True)
         \<and> exc_cause (on_fault method s e) = Some e
         \<and> on_fault method s e \<noteq> on_exception method (on_fault method s e)"
proof -
  have "on_fault method s e \<noteq> on_exception method (on_fault method s e)"
    by (simp add: on_fault_def on_exception_def raise_from_def)
  then show ?thesis
    using assms by (simp add: Fldigi_call_fails on_fault_class on_fault_cause)
qed

theorem no_double_wrapping_witness:
  "server (client_of (always (Inl a_fault))) [] ''rig.get_mode'' [] = Inl a_fault
   \<and> exc_class a_fault = Fault 1 ''unknown method''
   \<and> Fldigi_call (client_of (always (Inl a_fault))) ''rig.get_mode'' [] []
       = (Inl (PyExc (Fldigi FldigiRigError) ''Rig error in rig.get_mode: unknown method''
                 (Some a_fault) (Some a_fault)), [(''rig.get_mode'', [])])"
proof -
  have h: "server (client_of (always (Inl a_fault))) [] ''rig.get_mode'' [] = Inl a_fault"
    by (simp add: client_of_def always_def)
  have c: "exc_class a_fault = Fault 1 ''unknown method''"
    by (simp add: a_fault_def)
  have v: "on_fault ''rig.get_mode'' ''unknown method'' a_fault
             = PyExc (Fldigi FldigiRigError) ''Rig error in rig.get_mode: unknown method''
                 (Some a_fault) (Some a_fault)"
    by (simp add: on_fault_def raise_from_def lower_def lower_char_def startswith_def)
  show ?thesis using h c no_double_wrapping [OF h c] by (simp add: v)
qed



lemma url_default: "url_of ''127.0.0.1'' 7362 = ''http://127.0.0.1:7362''"
  by (simp add: url_of_def str_int_def digit_char_def)

section \<open>Construction and failures\<close>






section \<open>The convenience methods\<close>

lemma primary_call_wire: "snd (primary_call a self w) = w @ [primary a]"
  by (simp add: primary_call_def Fldigi_call_wire)

lemma fallback_call_wire: "snd (fallback_call a self w) = w @ [fallback a]"
  by (simp add: fallback_call_def Fldigi_call_wire)

lemma facade_unfold:
  "facade a self =
     (case a of
        Get_frequency \<Rightarrow> except_RigError (primary_call a self) (fallback_call a self)
      | Get_mode \<Rightarrow> except_RigError (primary_call a self) (fallback_call a self)
      | Get_bandwidth \<Rightarrow> except_RigError (primary_call a self) (fallback_call a self)
      | _ \<Rightarrow> except_RigError (discard (primary_call a self)) (discard (fallback_call a self)))"
  by (cases a)
     (simp_all add: primary_call_def fallback_call_def primary_def fallback_def
        get_frequency_def set_frequency_def get_mode_def set_mode_def
        get_bandwidth_def set_bandwidth_def)

lemma discard_outcome:
  "discard act w = (case fst (act w) of Inl e \<Rightarrow> Inl e | Inr v \<Rightarrow> Inr PNone, snd (act w))"
  by (simp add: discard_def split: prod.split sum.split)

lemma except_RigError_eq:
  "except_RigError body handler w =
     (case fst (body w) of
        Inr v \<Rightarrow> (Inr v, snd (body w))
      | Inl e \<Rightarrow>
          if exc_class e = Fldigi FldigiRigError then handler (snd (body w))
          else (Inl e, snd (body w)))"
  by (simp add: except_RigError_def split: prod.split sum.split)

lemma facade_as_try:
  "facade a self w =
     (case fst (primary_call a self w) of
        Inr v \<Rightarrow> (Inr (handed_back a v), w @ [primary a])
      | Inl e \<Rightarrow>
          if exc_class e = Fldigi FldigiRigError
          then (outcome a (fst (fallback_call a self (w @ [primary a]))),
                w @ [primary a, fallback a])
          else (Inl e, w @ [primary a]))"
  by (cases a)
     (simp_all add: facade_unfold except_RigError_eq discard_outcome outcome_def
        primary_call_wire fallback_call_wire prod_eq_iff split: sum.split)

text \<open>
  Claim C2. For each of the six accessors of frequency, mode and bandwidth the first call
  is the one in the rig namespace. When it raises a RigError, exactly one more call is
  made, the equivalent one in the main namespace with the same arguments, and its
  outcome, value or error, is the outcome of the accessor. When it raises an error of any
  other kind, that error is the outcome and no other call is made; when it returns, no
  other call is made either.
\<close>

theorem fallback_only_on_RigError:
  "(fst (primary_call a self w) = Inl e \<and> exc_class e = Fldigi FldigiRigError \<longrightarrow>
      facade a self w =
        (outcome a (fst (fallback_call a self (w @ [primary a]))), w @ [primary a, fallback a]))
   \<and> (fst (primary_call a self w) = Inl e \<and> exc_class e \<noteq> Fldigi FldigiRigError \<longrightarrow>
      facade a self w = (Inl e, w @ [primary a]))
   \<and> (fst (primary_call a self w) = Inr v \<longrightarrow>
      facade a self w = (Inr (handed_back a v), w @ [primary a]))
   \<and> snd (fallback a) = snd (primary a)"
  by (simp add: facade_as_try primary_def fallback_def)

theorem fallback_only_on_RigError_witness:
  "fst (primary_call Get_frequency (client_of (no_rig a_frequency)) [])
     = Inl (PyExc (Fldigi FldigiRigError) ''Rig error in rig.get_frequency: unknown method''
              (Some a_fault) (Some a_fault))
   \<and> facade Get_frequency (client_of (no_rig a_frequency)) []
     = (Inr a_frequency, [(''rig.get_frequency'', []), (''main.get_frequency'', [])])
   \<and> fst (primary_call (Set_mode ''BPSK31'') (client_of (always (Inl a_timeout))) [])
     = Inl (on_exception ''rig.set_mode'' a_timeout)
   \<and> facade (Set_mode ''BPSK31'') (client_of (always (Inl a_timeout))) []
     = (Inl (on_exception ''rig.set_mode'' a_timeout), [(''rig.set_mode'', [PStr ''BPSK31''])])
   \<and> fst (primary_call Get_bandwidth (client_of (always (Inr (PInt 500)))) []) = Inr (PInt 500)
   \<and> facade Get_bandwidth (client_of (always (Inr (PInt 500)))) []
     = (Inr (PInt 500), [(''rig.get_bandwidth'', [])])"
proof -
  let ?e = "PyExc (Fldigi FldigiRigError) ''Rig error in rig.get_frequency: unknown method''
              (Some a_fault) (Some a_fault)"
  have p1: "fst (primary_call Get_frequency (client_of (no_rig a_frequency)) []) = Inl ?e"
    by (simp add: primary_call_def primary_def Fldigi_call_def invoke_def client_of_def
        no_rig_def startswith_def a_fault_def on_fault_def raise_from_def lower_def
        lower_char_def)
  have f1: "fst (fallback_call Get_frequency (client_of (no_rig a_frequency))
                   ([] @ [primary Get_frequency])) = Inr a_frequency"
    by (simp add: fallback_call_def fallback_def Fldigi_call_def invoke_def client_of_def
        no_rig_def startswith_def)
  have c1: "facade Get_frequency (client_of (no_rig a_frequency)) []
     = (Inr a_frequency, [(''rig.get_frequency'', []), (''main.get_frequency'', [])])"
    using p1 f1
      fallback_only_on_RigError [of Get_frequency "client_of (no_rig a_frequency)" "[]" ?e]
    by (simp add: outcome_def primary_def fallback_def)
  have p2: "fst (primary_call (Set_mode ''BPSK31'') (client_of (always (Inl a_timeout))) [])
     = Inl (on_exception ''rig.set_mode'' a_timeout)"
    by (simp add: primary_call_def primary_def Fldigi_call_def invoke_def client_of_def
        always_def a_timeout_def)
  have k2: "exc_class (on_exception ''rig.set_mode'' a_timeout) \<noteq> Fldigi FldigiRigError"
    by (simp add: on_exception_def raise_from_def)
  have c2: "facade (Set_mode ''BPSK31'') (client_of (always (Inl a_timeout))) []
     = (Inl (on_exception ''rig.set_mode'' a_timeout), [(''rig.set_mode'', [PStr ''BPSK31''])])"
    using p2 k2
      fallback_only_on_RigError [of "Set_mode ''BPSK31''" "client_of (always (Inl a_timeout))"
        "[]" "on_exception ''rig.set_mode'' a_timeout"]
    by (simp add: primary_def)
  have p3: "fst (primary_call Get_bandwidth (client_of (always (Inr (PInt 500)))) [])
     = Inr (PInt 500)"
    by (simp add: primary_call_def primary_def Fldigi_call_def invoke_def client_of_def
        always_def)
  have c3: "facade Get_bandwidth (client_of (always (Inr (PInt 500)))) []
     = (Inr (PInt 500), [(''rig.get_bandwidth'', [])])"
    using p3
      fallback_only_on_RigError [of Get_bandwidth "client_of (always (Inr (PInt 500)))" "[]"
        _ "PInt 500"]
    by (simp add: primary_def)
  show ?thesis using p1 c1 p2 c2 p3 c3 by simp
qed

section \<open>The class body\<close>

text \<open>
  Claim C3 does not hold of the class as written. The body of the class binds the names
  \<^verbatim>\<open>rx\<close> and \<^verbatim>\<open>tx\<close> twice, first to the methods that call \<^verbatim>\<open>main.rx\<close> and
  \<^verbatim>\<open>main.tx\<close> and later to the properties that return a namespace proxy, and the later
  binding is the one the class has. So \<^verbatim>\<open>client.rx()\<close> and \<^verbatim>\<open>client.tx()\<close> call a
  proxy object, which raises a TypeError and issues no wire call.
\<close>

theorem rx_and_tx_are_shadowed:
  "Fldigi_class ''rx'' = Some (Prop_namespace ''rx'')
   \<and> Fldigi_class ''tx'' = Some (Prop_namespace ''tx'')
   \<and> Fldigi_call_attr self ''rx'' w = Some (Inl (not_callable ''NamespaceProxy''), w)
   \<and> Fldigi_call_attr self ''tx'' w = Some (Inl (not_callable ''NamespaceProxy''), w)"
  by (simp add: Fldigi_call_attr_def Fldigi_class_def Fldigi_body_def raise_exc_def)

section \<open>The receive buffer\<close>

text \<open>
  Claim C5. \<^verbatim>\<open>get_rx(start)\<close> with no length issues \<^verbatim>\<open>text.get_rx(start, 0, 0)\<close>, and
  \<^verbatim>\<open>get_rx(start, L)\<close> issues \<^verbatim>\<open>text.get_rx(start, 0, L)\<close>, for every start and every
  integer length; so \<^verbatim>\<open>get_rx(start=5)\<close> issues \<^verbatim>\<open>text.get_rx(5, 0, 0)\<close> and
  \<^verbatim>\<open>get_rx(start=0, length=20)\<close> issues \<^verbatim>\<open>text.get_rx(0, 0, 20)\<close>.
\<close>

theorem get_rx_wire_call:
  "Fldigi_get_rx self (Some start) None w
     = Fldigi_call self ''text.get_rx'' [PInt start, PInt 0, PInt 0] w
   \<and> snd (Fldigi_get_rx self (Some start) None w)
     = w @ [(''text.get_rx'', [PInt start, PInt 0, PInt 0])]
   \<and> Fldigi_get_rx self (Some start) (Some L) w
     = Fldigi_call self ''text.get_rx'' [PInt start, PInt 0, PInt L] w
   \<and> snd (Fldigi_get_rx self (Some start) (Some L) w)
     = w @ [(''text.get_rx'', [PInt start, PInt 0, PInt L])]
   \<and> snd (Fldigi_get_rx self (Some 5) None w) = w @ [(''text.get_rx'', [PInt 5, PInt 0, PInt 0])]
   \<and> snd (Fldigi_get_rx self (Some 0) (Some 20) w)
     = w @ [(''text.get_rx'', [PInt 0, PInt 0, PInt 20])]"
  by (simp add: Fldigi_get_rx_def or_zero_def Fldigi_call_wire)

text \<open>
  Claim C10. \<^verbatim>\<open>get_rx\<close> with the explicit length zero does what it does with no
  length: both issue \<^verbatim>\<open>text.get_rx(start, 0, 0)\<close>.
\<close>

theorem get_rx_zero_length_is_no_length:
  "Fldigi_get_rx self start (Some 0) w = Fldigi_get_rx self start None w
   \<and> snd (Fldigi_get_rx self (Some s) (Some 0) w)
     = w @ [(''text.get_rx'', [PInt s, PInt 0, PInt 0])]"
  by (simp add: Fldigi_get_rx_def or_zero_def Fldigi_call_wire)

section \<open>Namespace proxies\<close>

text \<open>
  Claim C4, as amended. For every proxy, every positional argument list and every
  attribute name that is not a declared attribute of the proxy, calling the attribute
  is the dispatcher call of the namespace, a dot and the attribute name with the same
  arguments: the same wire call and the same outcome.
\<close>

theorem proxy_is_dispatch:
  assumes "\<not> declared name"
  shows "NamespaceProxy_call client namespace name args w
           = Some (Fldigi_call client (namespace @ ''.'' @ name) args w)
         \<and> snd (Fldigi_call client (namespace @ ''.'' @ name) args w)
           = w @ [(namespace @ ''.'' @ name, args)]"
  using assms
  by (simp add: declared_def NamespaceProxy_call_def NamespaceProxy_getattr_def Fldigi_call_wire)

theorem proxy_is_dispatch_witness:
  "\<not> declared ''get_mode''
   \<and> NamespaceProxy_call (client_of (always (Inr (PStr ''USB'')))) ''rig'' ''get_mode'' [] []
       = Some (Fldigi_call (client_of (always (Inr (PStr ''USB'')))) ''rig.get_mode'' [] [])
   \<and> snd (Fldigi_call (client_of (always (Inr (PStr ''USB'')))) ''rig.get_mode'' [] [])
       = [(''rig.get_mode'', [])]"
proof -
  have h: "\<not> declared ''get_mode''"
    by (simp add: declared_def reserved_def startswith_def)
  show ?thesis
    using h proxy_is_dispatch [OF h, of "client_of (always (Inr (PStr ''USB'')))" "''rig''" "[]" "[]"]
    by simp
qed

text \<open>
  Claim C4 as stated, for every attribute name, fails at \<^verbatim>\<open>_namespace\<close>: the proxy has
  an attribute of that name, a string, and calling it raises a TypeError with no wire
  call, while the dispatcher call of \<^verbatim>\<open>rig._namespace\<close> issues one.
\<close>

theorem declared_attribute_is_not_forwarded:
  "NamespaceProxy_call (client_of (always (Inr (PStr ''USB'')))) ''rig'' ''_namespace'' [] []
     = Some (Inl (not_callable ''str''), [])
   \<and> NamespaceProxy_call (client_of (always (Inr (PStr ''USB'')))) ''rig'' ''_namespace'' [] []
     \<noteq> Some (Fldigi_call (client_of (always (Inr (PStr ''USB'')))) ''rig._namespace'' [] [])"
proof -
  have "snd (Fldigi_call (client_of (always (Inr (PStr ''USB'')))) ''rig._namespace'' [] [])
          = [(''rig._namespace'', [])]"
    by (simp add: Fldigi_call_wire)
  then have "Fldigi_call (client_of (always (Inr (PStr ''USB'')))) ''rig._namespace'' [] []
          \<noteq> (Inl (not_callable ''str''), [])"
    by auto
  then show ?thesis by (simp add: NamespaceProxy_call_def)
qed

lemma Fldigi_class_proxies:
  "Fldigi_class ''fldigi'' = Some (Prop_namespace ''fldigi'')"
  "Fldigi_class ''main'' = Some (Prop_namespace ''main'')"
  "Fldigi_class ''rig'' = Some (Prop_namespace ''rig'')"
  "Fldigi_class ''text'' = Some (Prop_namespace ''text'')"
  "Fldigi_class ''modem'' = Some (Prop_namespace ''modem'')"
  "Fldigi_class ''modem_olivia'' = Some (Prop_namespace ''modem.olivia'')"
  "Fldigi_class ''rx'' = Some (Prop_namespace ''rx'')"
  "Fldigi_class ''rxtx'' = Some (Prop_namespace ''rxtx'')"
  "Fldigi_class ''tx'' = Some (Prop_namespace ''tx'')"
  "Fldigi_class ''log'' = Some (Prop_namespace ''log'')"
  "Fldigi_class ''io'' = Some (Prop_namespace ''io'')"
  "Fldigi_class ''spot'' = Some (Prop_namespace ''spot'')"
  "Fldigi_class ''navtex'' = Some (Prop_namespace ''navtex'')"
  "Fldigi_class ''wefax'' = Some (Prop_namespace ''wefax'')"
  by (simp_all add: Fldigi_class_def Fldigi_body_def)

lemma Fldigi_class_surface:
  assumes "pname \<in> set dynamic_surface"
  shows "Fldigi_class pname = Some (Prop_namespace (namespace_of pname))"
proof -
  from assms consider
      "pname = ''fldigi''" | "pname = ''main''" | "pname = ''rig''" | "pname = ''text''"
    | "pname = ''modem''" | "pname = ''modem_olivia''" | "pname = ''rx''" | "pname = ''rxtx''"
    | "pname = ''tx''" | "pname = ''log''" | "pname = ''io''" | "pname = ''spot''"
    | "pname = ''navtex''" | "pname = ''wefax''"
    unfolding dynamic_surface_def by fastforce
  then show ?thesis
    by cases (simp_all add: Fldigi_class_proxies namespace_of_def)
qed

text \<open>
  Claim C6, as amended. For every proxy name of the dynamic surface and every attribute
  name that is not a declared attribute of the proxy, calling the attribute on the
  proxy of that name is the dispatcher call of the namespace of the proxy, a dot and
  the attribute name. The namespace is the name of the proxy, except that the proxy
  \<^verbatim>\<open>modem_olivia\<close> has the namespace \<^verbatim>\<open>modem.olivia\<close>.
\<close>

theorem surface_proxies_forward:
  assumes "pname \<in> set dynamic_surface" and "\<not> declared name"
  shows "Fldigi_proxy_call self pname name args w
           = Some (Fldigi_call self (namespace_of pname @ ''.'' @ name) args w)"
  using assms(2)
  by (simp add: Fldigi_proxy_call_def Fldigi_class_surface [OF assms(1)] declared_def
      NamespaceProxy_call_def NamespaceProxy_getattr_def)

theorem surface_proxies_forward_witness:
  "''modem_olivia'' \<in> set dynamic_surface \<and> \<not> declared ''get_bandwidth''
   \<and> Fldigi_proxy_call (client_of (always (Inr (PInt 500)))) ''modem_olivia'' ''get_bandwidth'' [] []
       = Some (Fldigi_call (client_of (always (Inr (PInt 500)))) ''modem.olivia.get_bandwidth'' [] [])"
proof -
  have h1: "''modem_olivia'' \<in> set dynamic_surface"
    by (simp add: dynamic_surface_def)
  have h2: "\<not> declared ''get_bandwidth''"
    by (simp add: declared_def reserved_def startswith_def)
  show ?thesis
    using h1 h2
      surface_proxies_forward [OF h1 h2, of "client_of (always (Inr (PInt 500)))" "[]" "[]"]
    by (simp add: namespace_of_def)
qed

text \<open>
  Claim C6 as stated fails for the proxy \<^verbatim>\<open>modem_olivia\<close>, whose calls go to
  \<^verbatim>\<open>modem.olivia.get_bandwidth\<close> and not to \<^verbatim>\<open>modem_olivia.get_bandwidth\<close>, and for the
  attribute \<^verbatim>\<open>_client\<close>, which is not forwarded at all.
\<close>

theorem modem_olivia_is_not_its_namespace:
  "Fldigi_proxy_call (client_of (always (Inr (PInt 500)))) ''modem_olivia'' ''get_bandwidth'' [] []
     = Some (Fldigi_call (client_of (always (Inr (PInt 500)))) ''modem.olivia.get_bandwidth'' [] [])
   \<and> Fldigi_proxy_call (client_of (always (Inr (PInt 500)))) ''modem_olivia'' ''get_bandwidth'' [] []
     \<noteq> Some (Fldigi_call (client_of (always (Inr (PInt 500)))) ''modem_olivia.get_bandwidth'' [] [])
   \<and> Fldigi_proxy_call (client_of (always (Inr (PInt 500)))) ''rig'' ''_client'' [] []
     \<noteq> Some (Fldigi_call (client_of (always (Inr (PInt 500)))) ''rig._client'' [] [])"
proof -
  let ?c = "client_of (always (Inr (PInt 500)))"
  have a: "Fldigi_proxy_call ?c ''modem_olivia'' ''get_bandwidth'' [] []
             = Some (Fldigi_call ?c ''modem.olivia.get_bandwidth'' [] [])"
    by (simp add: Fldigi_proxy_call_def Fldigi_class_def Fldigi_body_def NamespaceProxy_call_def
        NamespaceProxy_getattr_def reserved_def startswith_def)
  have b: "Fldigi_call ?c ''modem.olivia.get_bandwidth'' [] []
             \<noteq> Fldigi_call ?c ''modem_olivia.get_bandwidth'' [] []"
  proof
    assume "Fldigi_call ?c ''modem.olivia.get_bandwidth'' [] []
              = Fldigi_call ?c ''modem_olivia.get_bandwidth'' [] []"
    then have "snd (Fldigi_call ?c ''modem.olivia.get_bandwidth'' [] [])
              = snd (Fldigi_call ?c ''modem_olivia.get_bandwidth'' [] [])"
      by simp
    then show False by (simp add: Fldigi_call_wire)
  qed
  have c: "Fldigi_proxy_call ?c ''rig'' ''_client'' [] [] = Some (Inl (not_callable ''Fldigi''), [])"
    by (simp add: Fldigi_proxy_call_def Fldigi_class_def Fldigi_body_def NamespaceProxy_call_def)
  have d: "Fldigi_call ?c ''rig._client'' [] [] \<noteq> (Inl (not_callable ''Fldigi''), [])"
  proof
    assume "Fldigi_call ?c ''rig._client'' [] [] = (Inl (not_callable ''Fldigi''), [])"
    then have "snd (Fldigi_call ?c ''rig._client'' [] []) = []"
      by simp
    then show False by (simp add: Fldigi_call_wire)
  qed
  show ?thesis using a b c d by simp
qed

end
